theory Spec2Isabelle
  imports Main
begin

section \<open>Persisted schema\<close>

text \<open>
  The two tables of the migration. Timestamps are milliseconds since the epoch. Both
  primary keys are \<^verbatim>\<open>INTEGER PRIMARY KEY AUTOINCREMENT\<close>: the store keeps, per table, the
  last key it handed out.
\<close>

record user =
  user_id :: nat
  user_name :: string
  user_email :: string
  user_phone :: string
  user_department :: string
  user_pin :: string
  user_createdAt :: int

record attendance =
  att_id :: nat
  att_date :: int
  att_userId :: nat

record store =
  users :: "user list"
  attendances :: "attendance list"
  user_seq :: nat
  att_seq :: nat

definition empty_store :: store where
  "empty_store = \<lparr>users = [], attendances = [], user_seq = 0, att_seq = 0\<rparr>"

datatype db_error = UniqueConstraintFailed | ForeignKeyConstraintFailed | InconsistentQueryResult

section \<open>Collaborators that are not part of the repository\<close>

text \<open>
  bcryptjs, the JavaScript \<^verbatim>\<open>Date\<close> object and the json2csv cell formatter are libraries; the
  handlers take them as parameters.
  \<^item> \<open>bcrypt_hash E salt pin\<close> is \<^verbatim>\<open>bcrypt.hash(pin, 10)\<close>, the salt being the one the
    library draws for this call;
  \<^item> \<open>bcrypt_compare E pin digest\<close> is \<^verbatim>\<open>bcrypt.compare(pin, digest)\<close>;
  \<^item> \<open>setHours0 E t\<close> is \<^verbatim>\<open>new Date(t).setHours(0, 0, 0, 0)\<close>, local midnight of the day of \<open>t\<close>;
  \<^item> \<open>toISODate E t\<close> is \<^verbatim>\<open>new Date(t).toISOString().split("T")[0]\<close>;
  \<^item> \<open>toLocaleTime E t\<close> is \<^verbatim>\<open>toLocaleTimeString("en-US", ...)\<close> with the options of the handler;
  \<^item> \<open>csv_value E c\<close> is the text json2csv writes for one cell, \<open>csv_eol E\<close> its line break.
\<close>

datatype cell = CNum nat | CStr string

record env =
  bcrypt_hash :: "string \<Rightarrow> string \<Rightarrow> string"
  bcrypt_compare :: "string \<Rightarrow> string \<Rightarrow> bool"
  setHours0 :: "int \<Rightarrow> int"
  toISODate :: "int \<Rightarrow> string"
  toLocaleTime :: "int \<Rightarrow> string"
  csv_value :: "cell \<Rightarrow> string"
  csv_eol :: string

section \<open>Store operations used by the handlers\<close>

text \<open>\<^verbatim>\<open>prisma.user.findUnique({ where: { email } })\<close>\<close>

definition user_findUnique :: "store \<Rightarrow> string \<Rightarrow> user option" where
  "user_findUnique s email = find (\<lambda>u. user_email u = email) (users s)"

text \<open>
  \<^verbatim>\<open>prisma.user.create\<close>: the unique index \<^verbatim>\<open>User_email_key\<close> rejects a second row with the
  same email; \<open>createdAt\<close> is the store's clock at the insert.
\<close>

definition user_create ::
  "store \<Rightarrow> int \<Rightarrow> string \<Rightarrow> string \<Rightarrow> string \<Rightarrow> string \<Rightarrow> string \<Rightarrow> db_error + (user \<times> store)" where
  "user_create s t name email phone department pin =
     (if \<exists>u \<in> set (users s). user_email u = email then Inl UniqueConstraintFailed
      else
        let u = \<lparr>user_id = user_seq s + 1, user_name = name, user_email = email,
                 user_phone = phone, user_department = department, user_pin = pin,
                 user_createdAt = t\<rparr>
        in Inr (u, s\<lparr>users := users s @ [u], user_seq := user_seq s + 1\<rparr>))"

text \<open>\<^verbatim>\<open>prisma.attendance.findFirst({ where: { userId, date: { gte: startOfDay } } })\<close>\<close>

definition attendance_findFirst :: "store \<Rightarrow> nat \<Rightarrow> int \<Rightarrow> attendance option" where
  "attendance_findFirst s uid startOfDay =
     find (\<lambda>a. att_userId a = uid \<and> startOfDay \<le> att_date a) (attendances s)"

text \<open>
  \<^verbatim>\<open>prisma.attendance.create({ data: { userId } })\<close>: no date is passed, so the column takes
  its default, the store's clock \<open>t\<close> at the insert. The foreign key rejects an unknown user.
\<close>

definition attendance_create :: "store \<Rightarrow> int \<Rightarrow> nat \<Rightarrow> db_error + store" where
  "attendance_create s t uid =
     (if \<exists>u \<in> set (users s). user_id u = uid
      then Inr (s\<lparr>attendances := attendances s @ [\<lparr>att_id = att_seq s + 1, att_date = t, att_userId = uid\<rparr>],
                  att_seq := att_seq s + 1\<rparr>)
      else Inl ForeignKeyConstraintFailed)"

text \<open>
  \<^verbatim>\<open>prisma.attendance.findMany({ where: { date: { gte: startOfDay } }, include: { user: true } })\<close>:
  the rows in table order, each with its owning user; a row whose user is gone makes the
  query fail.
\<close>

fun include_user :: "store \<Rightarrow> attendance list \<Rightarrow> db_error + (attendance \<times> user) list" where
  "include_user s [] = Inr []"
| "include_user s (a # as) =
     (case find (\<lambda>u. user_id u = att_userId a) (users s) of
        None \<Rightarrow> Inl InconsistentQueryResult
      | Some u \<Rightarrow> (case include_user s as of
                    Inl e \<Rightarrow> Inl e
                  | Inr js \<Rightarrow> Inr ((a, u) # js)))"

definition attendance_findMany :: "store \<Rightarrow> int \<Rightarrow> db_error + (attendance \<times> user) list" where
  "attendance_findMany s startOfDay =
     include_user s (filter (\<lambda>a. startOfDay \<le> att_date a) (attendances s))"

section \<open>Requests and responses\<close>

text \<open>
  A body field is missing (\<open>None\<close>) or a string; the JavaScript test \<^verbatim>\<open>!field\<close> holds for a
  missing field and for the empty string.
\<close>

fun falsy :: "string option \<Rightarrow> bool" where
  "falsy None = True"
| "falsy (Some v) = (v = [])"

record register_body =
  reg_name :: "string option"
  reg_email :: "string option"
  reg_phone :: "string option"
  reg_department :: "string option"
  reg_pin :: "string option"

record login_body =
  login_email :: "string option"
  login_pin :: "string option"

text \<open>
  The \<^verbatim>\<open>{ error: ... }\<close> bodies, named as the error taxonomy names them. The literals of
  \<^verbatim>\<open>app.ts\<close> are: \<open>ValidationError\<close> ``Please fill in all required fields to continue.'' in
  register and ``Both email and PIN are required to log in.'' in login;
  \<open>DuplicateEmailError\<close> ``This email is already registered. Try logging in.'';
  \<open>NotFoundError\<close> ``We couldn't find an account with that email.'';
  \<open>InvalidCredentialsError\<close> ``Incorrect PIN. Please try again.'';
  \<open>NoDataError\<close> ``No attendance has been recorded for today yet.'';
  \<open>UnsupportedFormatError\<close> ``Invalid export format. Please use ?format=csv or ?format=pdf'';
  \<open>InternalError\<close> the apology of each \<^verbatim>\<open>catch\<close> block. The second copy of the file has the
  same handlers with shorter literals.
\<close>

datatype error =
    ValidationError
  | DuplicateEmailError
  | NotFoundError
  | InvalidCredentialsError
  | NoDataError
  | UnsupportedFormatError
  | InternalError

text \<open>
  The \<^verbatim>\<open>{ message: ... }\<close> bodies of login: \<open>AttendanceMarked\<close> is ``Attendance successfully
  marked. Have a great day!'', \<open>AlreadyMarked\<close> is ``You've already marked your attendance
  today.''
\<close>

datatype message = AttendanceMarked | AlreadyMarked

text \<open>
  \<open>Registered name id email\<close> is the body
  \<^verbatim>\<open>{ message: `Welcome aboard, ${name}! ...`, user: { id, email } }\<close>;
  \<open>CsvAttachment filename text\<close> and \<open>PdfAttachment filename title lines\<close> are the two
  downloads.
\<close>

datatype body =
    Error error
  | Message message
  | Registered string nat string
  | CsvAttachment string string
  | PdfAttachment string string "string list"

datatype response = Response nat body

text \<open>The text a response sends as a CSV download; empty for every other body.\<close>

fun csv_text :: "response \<Rightarrow> string" where
  "csv_text (Response code (CsvAttachment filename content)) = content"
| "csv_text (Response code other) = []"

section \<open>POST /register\<close>

definition register ::
  "env \<Rightarrow> string \<Rightarrow> int \<Rightarrow> register_body \<Rightarrow> store \<Rightarrow> response \<times> store" where
  "register E salt t b s =
     (if falsy (reg_name b) \<or> falsy (reg_email b) \<or> falsy (reg_phone b)
         \<or> falsy (reg_department b) \<or> falsy (reg_pin b)
      then (Response 400 (Error ValidationError), s)
      else
        let name = the (reg_name b); email = the (reg_email b); phone = the (reg_phone b);
            department = the (reg_department b); pin = the (reg_pin b)
        in case user_findUnique s email of
             Some existing \<Rightarrow> (Response 400 (Error DuplicateEmailError), s)
           | None \<Rightarrow>
               let hashedPin = bcrypt_hash E salt pin
               in case user_create s t name email phone department hashedPin of
                    Inl err \<Rightarrow> (Response 500 (Error InternalError), s)
                  | Inr (u, s') \<Rightarrow> (Response 200 (Registered name (user_id u) (user_email u)), s'))"

section \<open>POST /login\<close>

text \<open>
  \<open>now\<close> is the clock read by \<^verbatim>\<open>new Date()\<close> in the handler, \<open>t_insert\<close> the store's clock
  when the insert runs.
\<close>

definition login ::
  "env \<Rightarrow> int \<Rightarrow> int \<Rightarrow> login_body \<Rightarrow> store \<Rightarrow> response \<times> store" where
  "login E now t_insert b s =
     (if falsy (login_email b) \<or> falsy (login_pin b)
      then (Response 400 (Error ValidationError), s)
      else
        let email = the (login_email b); pin = the (login_pin b)
        in case user_findUnique s email of
             None \<Rightarrow> (Response 404 (Error NotFoundError), s)
           | Some u \<Rightarrow>
               if \<not> bcrypt_compare E pin (user_pin u)
               then (Response 401 (Error InvalidCredentialsError), s)
               else
                 let startOfDay = setHours0 E now
                 in case attendance_findFirst s (user_id u) startOfDay of
                      Some existingAttendance \<Rightarrow> (Response 200 (Message AlreadyMarked), s)
                    | None \<Rightarrow>
                        (case attendance_create s t_insert (user_id u) of
                           Inl err \<Rightarrow> (Response 500 (Error InternalError), s)
                         | Inr s' \<Rightarrow> (Response 200 (Message AttendanceMarked), s')))"

text \<open>The same request repeated, one execution after the other.\<close>

fun logins :: "env \<Rightarrow> (int \<times> int) list \<Rightarrow> login_body \<Rightarrow> store \<Rightarrow> response list \<times> store" where
  "logins E [] b s = ([], s)"
| "logins E ((now, t_insert) # ts) b s =
     (case login E now t_insert b s of
        (r, s') \<Rightarrow> (case logins E ts b s' of (rs, s'') \<Rightarrow> (r # rs, s'')))"

section \<open>GET /export-attendance\<close>

text \<open>JavaScript's \<^verbatim>\<open>Array.prototype.join\<close> and the decimal text of a number.\<close>

fun join :: "string \<Rightarrow> string list \<Rightarrow> string" where
  "join sep [] = []"
| "join sep [x] = x"
| "join sep (x # y # ys) = x @ sep @ join sep (y # ys)"

fun show_nat :: "nat \<Rightarrow> string" where
  "show_nat n =
     (if n < 10 then [''0123456789'' ! n]
      else show_nat (n div 10) @ [''0123456789'' ! (n mod 10)])"

declare show_nat.simps [simp del]

text \<open>
  A projected row is the object literal of the \<^verbatim>\<open>map\<close> callback: its keys in the order they
  are written, each with its value. \<open>index\<close> is the position in the query result.
\<close>

type_synonym row = "(string \<times> cell) list"

definition project :: "env \<Rightarrow> nat \<Rightarrow> attendance \<times> user \<Rightarrow> row" where
  "project E index au =
     (case au of (a, u) \<Rightarrow>
        [(''sn'', CNum (index + 1)),
         (''name'', CStr (user_name u)),
         (''email'', CStr (user_email u)),
         (''phone'', CStr (user_phone u @ [])),
         (''department'', CStr (user_department u)),
         (''date'', CStr (toISODate E (att_date a))),
         (''time'', CStr (toLocaleTime E (att_date a)))])"

definition project_all :: "env \<Rightarrow> (attendance \<times> user) list \<Rightarrow> row list" where
  "project_all E js = map (\<lambda>(index, au). project E index au) (enumerate 0 js)"

text \<open>
  \<^verbatim>\<open>new Json2CsvParser({ fields }).parse(data)\<close>: one line of field names, then one line per
  row holding the row's value of each field, the lines separated by the line break.
\<close>

definition csv_header :: "env \<Rightarrow> string list \<Rightarrow> string" where
  "csv_header E fieldNames = join '','' (map (\<lambda>k. csv_value E (CStr k)) fieldNames)"

definition csv_row :: "env \<Rightarrow> string list \<Rightarrow> row \<Rightarrow> string" where
  "csv_row E fieldNames r =
     join '','' (map (\<lambda>k. case map_of r k of None \<Rightarrow> [] | Some c \<Rightarrow> csv_value E c) fieldNames)"

definition csv_lines :: "env \<Rightarrow> string list \<Rightarrow> row list \<Rightarrow> string list" where
  "csv_lines E fieldNames data = csv_header E fieldNames # map (csv_row E fieldNames) data"

definition json2csv_parse :: "env \<Rightarrow> string list \<Rightarrow> row list \<Rightarrow> string" where
  "json2csv_parse E fieldNames data = join (csv_eol E) (csv_lines E fieldNames data)"

text \<open>
  The lines of a text are the pieces between its line feeds, as an editor or
  \<^verbatim>\<open>text.split("\n")\<close> shows them.
\<close>

fun split_lines :: "string \<Rightarrow> string list" where
  "split_lines [] = [[]]"
| "split_lines (c # cs) =
     (if c = CHR 0x0A then [] # split_lines cs
      else (case split_lines cs of
              [] \<Rightarrow> [[c]]
            | l # ls \<Rightarrow> (c # l) # ls))"

text \<open>The text of a cell inside a template literal, and one line of the PDF.\<close>

fun cell_text :: "cell option \<Rightarrow> string" where
  "cell_text None = ''undefined''"
| "cell_text (Some (CNum n)) = show_nat n"
| "cell_text (Some (CStr v)) = v"

definition pdf_line :: "nat \<Rightarrow> row \<Rightarrow> string" where
  "pdf_line i item =
     show_nat (i + 1) @ ''. '' @ cell_text (map_of item ''name'') @ '' | ''
       @ cell_text (map_of item ''email'') @ '' | '' @ cell_text (map_of item ''phone'') @ '' | ''
       @ cell_text (map_of item ''department'') @ '' | '' @ cell_text (map_of item ''date'')
       @ '' '' @ cell_text (map_of item ''time'')"

text \<open>
  \<^verbatim>\<open>today.setHours(0, 0, 0, 0)\<close> changes \<open>today\<close> itself, so the file name is built from the
  midnight value. \<open>format\<close> is the query parameter, \<open>None\<close> when it is omitted.
\<close>

definition export_attendance :: "env \<Rightarrow> int \<Rightarrow> string option \<Rightarrow> store \<Rightarrow> response" where
  "export_attendance E now format s =
     (let startOfDay = setHours0 E now; today = startOfDay
      in case attendance_findMany s startOfDay of
           Inl err \<Rightarrow> Response 500 (Error InternalError)
         | Inr found \<Rightarrow>
             if length found = 0 then Response 404 (Error NoDataError)
             else
               let data = project_all E found
               in if format = Some ''csv''
                  then (case data of
                          [] \<Rightarrow> Response 500 (Error InternalError)
                        | first # _ \<Rightarrow>
                            Response 200
                              (CsvAttachment (''attendance-'' @ toISODate E today @ ''.csv'')
                                 (json2csv_parse E (map fst first) data)))
                  else if format = Some ''pdf''
                  then Response 200
                         (PdfAttachment (''attendance-'' @ toISODate E today @ ''.pdf'')
                            ''Daily Attendance Report''
                            (map (\<lambda>(i, item). pdf_line i item) (enumerate 0 data)))
                  else Response 400 (Error UnsupportedFormatError))"

section \<open>Integrity of the store\<close>

text \<open>The foreign key \<^verbatim>\<open>Attendance_userId_fkey\<close>: every attendance row has its user.\<close>

definition fk_ok :: "store \<Rightarrow> bool" where
  "fk_ok s = (\<forall>a \<in> set (attendances s). \<exists>u \<in> set (users s). user_id u = att_userId a)"

text \<open>
  What the handlers rely on from \<^verbatim>\<open>setHours(0, 0, 0, 0)\<close>: midnight is not after the instant
  it is computed from, a later instant has no earlier midnight, and midnight is its own
  midnight. Two instants are on the same calendar day when they have the same midnight.
\<close>

definition day_start :: "(int \<Rightarrow> int) \<Rightarrow> bool" where
  "day_start f =
     ((\<forall>t. f t \<le> t) \<and> (\<forall>t t'. t \<le> t' \<longrightarrow> f t \<le> f t') \<and> (\<forall>t. f (f t) = f t))"

section \<open>A concrete instance\<close>

text \<open>
  An instance of the collaborators for evaluating the handlers on concrete requests: a
  stand-in digest that keeps salt and PIN apart, and days of 86400000 milliseconds counted
  from the epoch.
\<close>

text \<open>
  The cell formatter with the defaults of json2csv's \<^verbatim>\<open>Parser\<close>: a number as it is, a string
  between double quotes with each double quote inside it doubled; every other character of
  the string, a line break too, is kept.
\<close>

fun json2csv_value :: "cell \<Rightarrow> string" where
  "json2csv_value (CNum n) = show_nat n"
| "json2csv_value (CStr v) =
     [CHR 0x22] @ concat (map (\<lambda>c. if c = CHR 0x22 then [c, c] else [c]) v) @ [CHR 0x22]"

definition demo_env :: env where
  "demo_env =
     \<lparr>bcrypt_hash = (\<lambda>salt pin. salt @ ''$'' @ pin),
      bcrypt_compare = (\<lambda>pin digest. dropWhile (\<lambda>c. c \<noteq> CHR ''$'') digest = ''$'' @ pin),
      setHours0 = (\<lambda>t. t - t mod 86400000),
      toISODate = (\<lambda>t. ''day-'' @ show_nat (nat (t div 86400000))),
      toLocaleTime = (\<lambda>t. show_nat (nat (t mod 86400000))),
      csv_value = json2csv_value,
      csv_eol = [CHR 0x0A]\<rparr>"

definition ann :: register_body where
  "ann = \<lparr>reg_name = Some ''Ann'', reg_email = Some ''a@x.com'', reg_phone = Some ''555'',
          reg_department = Some ''Eng'', reg_pin = Some ''1234''\<rparr>"

definition ann_login :: "string \<Rightarrow> login_body" where
  "ann_login pin = \<lparr>login_email = Some ''a@x.com'', login_pin = Some pin\<rparr>"

definition ann_user :: user where
  "ann_user = \<lparr>user_id = 1, user_name = ''Ann'', user_email = ''a@x.com'', user_phone = ''555'',
               user_department = ''Eng'', user_pin = ''s$1234'', user_createdAt = 1000\<rparr>"

definition bob_user :: user where
  "bob_user = \<lparr>user_id = 2, user_name = ''Bob'', user_email = ''b@x.com'', user_phone = ''556'',
               user_department = ''Ops'', user_pin = ''t$9999'', user_createdAt = 2000\<rparr>"

text \<open>
  The store after Ann has registered at time 1000 with salt \<open>''s''\<close>; the same with one
  attendance on the day before the one that begins at 86400000; and after her login on that
  day.
\<close>

definition ann_store :: store where
  "ann_store = \<lparr>users = [ann_user], attendances = [], user_seq = 1, att_seq = 0\<rparr>"

definition ann_yesterday :: store where
  "ann_yesterday =
     \<lparr>users = [ann_user],
      attendances = [\<lparr>att_id = 1, att_date = 5000, att_userId = 1\<rparr>],
      user_seq = 1, att_seq = 1\<rparr>"

definition ann_today :: store where
  "ann_today =
     \<lparr>users = [ann_user],
      attendances = [\<lparr>att_id = 1, att_date = 5000, att_userId = 1\<rparr>,
                     \<lparr>att_id = 2, att_date = 86401005, att_userId = 1\<rparr>],
      user_seq = 1, att_seq = 2\<rparr>"

text \<open>Two users; Ann attended on both days, Bob on the second.\<close>

definition roster :: store where
  "roster =
     \<lparr>users = [ann_user, bob_user],
      attendances = [\<lparr>att_id = 1, att_date = 5000, att_userId = 1\<rparr>,
                     \<lparr>att_id = 2, att_date = 86401005, att_userId = 1\<rparr>,
                     \<lparr>att_id = 3, att_date = 86402000, att_userId = 2\<rparr>],
      user_seq = 2, att_seq = 3\<rparr>"

text \<open>
  A user whose name holds a line break, as the JSON string \<^verbatim>\<open>"Cy\nd"\<close> gives it to
  register, with one attendance on the second day.
\<close>

definition cyd_user :: user where
  "cyd_user = \<lparr>user_id = 1, user_name = [CHR ''C'', CHR ''y'', CHR 0x0A, CHR ''d''],
               user_email = ''c@x.com'', user_phone = ''557'', user_department = ''Lab'',
               user_pin = ''u$7777'', user_createdAt = 3000\<rparr>"

definition cyd_store :: store where
  "cyd_store =
     \<lparr>users = [cyd_user],
      attendances = [\<lparr>att_id = 1, att_date = 86401005, att_userId = 1\<rparr>],
      user_seq = 1, att_seq = 1\<rparr>"

section \<open>Lemmas about the store operations\<close>

lemma find_Some_mem: "find P xs = Some x \<Longrightarrow> x \<in> set xs \<and> P x"
  by (induction xs) (auto split: if_splits)

lemma find_None_iff_no: "find P xs = None \<longleftrightarrow> (\<forall>x \<in> set xs. \<not> P x)"
  by (induction xs) auto

lemma user_findUnique_None: "user_findUnique s e = None \<longleftrightarrow> (\<forall>u \<in> set (users s). user_email u \<noteq> e)"
  by (simp add: user_findUnique_def find_None_iff_no)

lemma user_findUnique_Some: "user_findUnique s e = Some u \<Longrightarrow> u \<in> set (users s) \<and> user_email u = e"
  unfolding user_findUnique_def by (drule find_Some_mem) simp

lemma falsy_iff: "falsy v \<longleftrightarrow> v = None \<or> v = Some []"
  by (cases v) auto

section \<open>Registration\<close>

lemma register_validation:
  "falsy (reg_name b) \<or> falsy (reg_email b) \<or> falsy (reg_phone b)
     \<or> falsy (reg_department b) \<or> falsy (reg_pin b)
   \<Longrightarrow> register E salt t b s = (Response 400 (Error ValidationError), s)"
  by (simp add: register_def)

lemma register_fresh:
  assumes "n \<noteq> []" "e \<noteq> []" "ph \<noteq> []" "d \<noteq> []" "p \<noteq> []"
    and "\<forall>u \<in> set (users s). user_email u \<noteq> e"
  shows "register E salt t \<lparr>reg_name = Some n, reg_email = Some e, reg_phone = Some ph,
            reg_department = Some d, reg_pin = Some p\<rparr> s
         = (Response 200 (Registered n (user_seq s + 1) e),
            s\<lparr>users := users s @ [\<lparr>user_id = user_seq s + 1, user_name = n, user_email = e,
                 user_phone = ph, user_department = d, user_pin = bcrypt_hash E salt p,
                 user_createdAt = t\<rparr>], user_seq := user_seq s + 1\<rparr>)"
proof -
  from assms(6) have "user_findUnique s e = None" by (simp add: user_findUnique_None)
  with assms show ?thesis
    by (simp add: register_def user_create_def Let_def)
qed

lemma register_duplicate:
  assumes "n \<noteq> []" "e \<noteq> []" "ph \<noteq> []" "d \<noteq> []" "p \<noteq> []"
    and "\<exists>u \<in> set (users s). user_email u = e"
  shows "register E salt t \<lparr>reg_name = Some n, reg_email = Some e, reg_phone = Some ph,
            reg_department = Some d, reg_pin = Some p\<rparr> s
         = (Response 400 (Error DuplicateEmailError), s)"
proof -
  from assms(6) have "user_findUnique s e \<noteq> None" by (simp add: user_findUnique_None)
  then obtain u where "user_findUnique s e = Some u" by auto
  with assms show ?thesis
    by (simp add: register_def Let_def)
qed

lemma register_ann:
  "register demo_env ''s'' 1000 ann empty_store
     = (Response 200 (Registered ''Ann'' 1 ''a@x.com''), ann_store)"
  by (simp add: register_def ann_def empty_store_def ann_store_def user_findUnique_def
      user_create_def demo_env_def ann_user_def Let_def)

text \<open>
  C9. A register request in which one of the five fields is missing or empty is answered
  with status 400 and the validation error, and the store is returned as it was: no user is
  created.
\<close>

theorem register_missing_field:
  assumes "reg_name b \<in> {None, Some []} \<or> reg_email b \<in> {None, Some []}
           \<or> reg_phone b \<in> {None, Some []} \<or> reg_department b \<in> {None, Some []}
           \<or> reg_pin b \<in> {None, Some []}"
  shows "register E salt t b s = (Response 400 (Error ValidationError), s)"
proof -
  from assms have "falsy (reg_name b) \<or> falsy (reg_email b) \<or> falsy (reg_phone b)
      \<or> falsy (reg_department b) \<or> falsy (reg_pin b)"
    by (auto simp: falsy_iff)
  then show ?thesis by (rule register_validation)
qed

theorem register_missing_field_witness:
  "reg_phone (ann\<lparr>reg_phone := Some []\<rparr>) \<in> {None, Some []}
   \<and> register demo_env ''s'' 1000 (ann\<lparr>reg_phone := Some []\<rparr>) empty_store
       = (Response 400 (Error ValidationError), empty_store)"
  using register_missing_field [of "ann\<lparr>reg_phone := Some []\<rparr>" demo_env "''s''" 1000 empty_store]
  by (simp add: ann_def)

text \<open>
  C2. Two register calls with the same email, every field of both non-empty, on a store
  that does not hold the email yet: the first answers 200 and creates the user, after which
  exactly one stored user has that email; the second answers 400 with the duplicate-email
  error and returns the store unchanged.
\<close>

theorem register_same_email_twice:
  assumes first: "n \<noteq> []" "e \<noteq> []" "ph \<noteq> []" "d \<noteq> []" "p \<noteq> []"
    and second: "n' \<noteq> []" "ph' \<noteq> []" "d' \<noteq> []" "p' \<noteq> []"
    and fresh: "\<forall>u \<in> set (users s). user_email u \<noteq> e"
  shows "case register E salt t \<lparr>reg_name = Some n, reg_email = Some e, reg_phone = Some ph,
                  reg_department = Some d, reg_pin = Some p\<rparr> s of
           (r1, s1) \<Rightarrow>
             r1 = Response 200 (Registered n (user_seq s + 1) e)
             \<and> length (filter (\<lambda>u. user_email u = e) (users s1)) = 1
             \<and> register E salt' t' \<lparr>reg_name = Some n', reg_email = Some e, reg_phone = Some ph',
                  reg_department = Some d', reg_pin = Some p'\<rparr> s1
                 = (Response 400 (Error DuplicateEmailError), s1)"
proof -
  let ?u = "\<lparr>user_id = user_seq s + 1, user_name = n, user_email = e,
             user_phone = ph, user_department = d, user_pin = bcrypt_hash E salt p,
             user_createdAt = t\<rparr>"
  let ?s1 = "s\<lparr>users := users s @ [?u], user_seq := user_seq s + 1\<rparr>"
  have a: "register E salt t \<lparr>reg_name = Some n, reg_email = Some e, reg_phone = Some ph,
              reg_department = Some d, reg_pin = Some p\<rparr> s
           = (Response 200 (Registered n (user_seq s + 1) e), ?s1)"
    using first fresh by (rule register_fresh)
  have "\<exists>u \<in> set (users ?s1). user_email u = e" by simp
  with second first(2)
  have b: "register E salt' t' \<lparr>reg_name = Some n', reg_email = Some e, reg_phone = Some ph',
              reg_department = Some d', reg_pin = Some p'\<rparr> ?s1
           = (Response 400 (Error DuplicateEmailError), ?s1)"
    by (intro register_duplicate)
  from fresh have "filter (\<lambda>u. user_email u = e) (users s) = []"
    by (simp add: filter_empty_conv)
  then have c: "length (filter (\<lambda>u. user_email u = e) (users ?s1)) = 1" by simp
  from b c show ?thesis unfolding a by simp
qed

theorem register_same_email_twice_witness:
  "register demo_env ''s'' 1000 ann empty_store
     = (Response 200 (Registered ''Ann'' 1 ''a@x.com''), ann_store)
   \<and> length (filter (\<lambda>u. user_email u = ''a@x.com'') (users ann_store)) = 1
   \<and> register demo_env ''t'' 1500 (ann\<lparr>reg_name := Some ''Anna'', reg_pin := Some ''4321''\<rparr>) ann_store
       = (Response 400 (Error DuplicateEmailError), ann_store)"
proof -
  from register_same_email_twice [where n = "''Ann''" and e = "''a@x.com''" and ph = "''555''"
      and d = "''Eng''" and p = "''1234''" and n' = "''Anna''" and ph' = "''555''"
      and d' = "''Eng''" and p' = "''4321''" and s = empty_store and E = demo_env
      and salt = "''s''" and t = 1000 and salt' = "''t''" and t' = 1500]
  have "case register demo_env ''s'' 1000 ann empty_store of
          (r1, s1) \<Rightarrow> r1 = Response 200 (Registered ''Ann'' 1 ''a@x.com'')
            \<and> length (filter (\<lambda>u. user_email u = ''a@x.com'') (users s1)) = 1
            \<and> register demo_env ''t'' 1500
                 (ann\<lparr>reg_name := Some ''Anna'', reg_pin := Some ''4321''\<rparr>) s1
                = (Response 400 (Error DuplicateEmailError), s1)"
    by (simp add: ann_def empty_store_def)
  then show ?thesis unfolding register_ann by simp
qed

lemma register_ok_cases:
  assumes "register E salt t b s = (Response 200 bd, s')"
  shows "\<not> falsy (reg_name b) \<and> \<not> falsy (reg_email b) \<and> \<not> falsy (reg_phone b)
         \<and> \<not> falsy (reg_department b) \<and> \<not> falsy (reg_pin b)
         \<and> user_findUnique s (the (reg_email b)) = None"
  using assms
  by (auto simp: register_def Let_def split: if_splits option.splits sum.splits)

lemma register_ok_result:
  assumes "\<not> falsy (reg_name b)" "\<not> falsy (reg_email b)" "\<not> falsy (reg_phone b)"
    "\<not> falsy (reg_department b)" "\<not> falsy (reg_pin b)"
    "user_findUnique s (the (reg_email b)) = None"
  shows "register E salt t b s
         = (Response 200 (Registered (the (reg_name b)) (user_seq s + 1) (the (reg_email b))),
            s\<lparr>users := users s @ [\<lparr>user_id = user_seq s + 1, user_name = the (reg_name b),
                 user_email = the (reg_email b), user_phone = the (reg_phone b),
                 user_department = the (reg_department b),
                 user_pin = bcrypt_hash E salt (the (reg_pin b)), user_createdAt = t\<rparr>],
              user_seq := user_seq s + 1\<rparr>)"
proof -
  from assms(6) have "\<not> (\<exists>u \<in> set (users s). user_email u = the (reg_email b))"
    by (simp add: user_findUnique_None)
  with assms show ?thesis
    by (simp add: register_def user_create_def Let_def)
qed

text \<open>
  C8. Whenever register answers 200, the store has gained one user whose pin field is the
  digest \<^verbatim>\<open>bcrypt.hash\<close> returned for the submitted PIN, and the body is the welcome message
  for the name together with the new id and the email. The response is the same whatever
  non-empty PIN (and whatever salt) the request carries, so it holds no PIN in any form.
  That the digest cannot be inverted, and that it differs from the PIN, are properties of
  the library, which is a parameter here.
\<close>

theorem register_stores_digest:
  assumes "register E salt t b s = (Response 200 bd, s')"
  shows "users s' = users s @ [\<lparr>user_id = user_seq s + 1, user_name = the (reg_name b),
                 user_email = the (reg_email b), user_phone = the (reg_phone b),
                 user_department = the (reg_department b),
                 user_pin = bcrypt_hash E salt (the (reg_pin b)), user_createdAt = t\<rparr>]
         \<and> bd = Registered (the (reg_name b)) (user_seq s + 1) (the (reg_email b))
         \<and> (\<forall>salt' p'. p' \<noteq> [] \<longrightarrow>
               fst (register E salt' t (b\<lparr>reg_pin := Some p'\<rparr>) s) = Response 200 bd)"
proof -
  note c = register_ok_cases [OF assms]
  from c have r: "register E salt t b s
         = (Response 200 (Registered (the (reg_name b)) (user_seq s + 1) (the (reg_email b))),
            s\<lparr>users := users s @ [\<lparr>user_id = user_seq s + 1, user_name = the (reg_name b),
                 user_email = the (reg_email b), user_phone = the (reg_phone b),
                 user_department = the (reg_department b),
                 user_pin = bcrypt_hash E salt (the (reg_pin b)), user_createdAt = t\<rparr>],
              user_seq := user_seq s + 1\<rparr>)"
    by (intro register_ok_result) simp_all
  with assms have bd: "bd = Registered (the (reg_name b)) (user_seq s + 1) (the (reg_email b))"
    and s': "s' = s\<lparr>users := users s @ [\<lparr>user_id = user_seq s + 1, user_name = the (reg_name b),
                 user_email = the (reg_email b), user_phone = the (reg_phone b),
                 user_department = the (reg_department b),
                 user_pin = bcrypt_hash E salt (the (reg_pin b)), user_createdAt = t\<rparr>],
              user_seq := user_seq s + 1\<rparr>"
    by simp_all
  have "fst (register E salt' t (b\<lparr>reg_pin := Some p'\<rparr>) s) = Response 200 bd"
    if "p' \<noteq> []" for salt' p'
  proof -
    let ?b = "b\<lparr>reg_pin := Some p'\<rparr>"
    from c that have "register E salt' t ?b s
      = (Response 200 (Registered (the (reg_name ?b)) (user_seq s + 1) (the (reg_email ?b))),
         s\<lparr>users := users s @ [\<lparr>user_id = user_seq s + 1, user_name = the (reg_name ?b),
              user_email = the (reg_email ?b), user_phone = the (reg_phone ?b),
              user_department = the (reg_department ?b),
              user_pin = bcrypt_hash E salt' (the (reg_pin ?b)), user_createdAt = t\<rparr>],
           user_seq := user_seq s + 1\<rparr>)"
      by (intro register_ok_result) simp_all
    then show ?thesis by (simp add: bd)
  qed
  with bd s' show ?thesis by simp
qed

theorem register_stores_digest_witness:
  "register demo_env ''s'' 1000 ann empty_store
     = (Response 200 (Registered ''Ann'' 1 ''a@x.com''), ann_store)
   \<and> map user_pin (users ann_store) = [bcrypt_hash demo_env ''s'' ''1234'']
   \<and> fst (register demo_env ''zz'' 1000 (ann\<lparr>reg_pin := Some ''9999''\<rparr>) empty_store)
       = Response 200 (Registered ''Ann'' 1 ''a@x.com'')"
proof -
  note d = register_stores_digest [OF register_ann]
  from d have "fst (register demo_env ''zz'' 1000 (ann\<lparr>reg_pin := Some ''9999''\<rparr>) empty_store)
       = Response 200 (Registered ''Ann'' 1 ''a@x.com'')"
    by simp
  moreover from d have "map user_pin (users ann_store) = [bcrypt_hash demo_env ''s'' ''1234'']"
    by (simp add: ann_def empty_store_def)
  ultimately show ?thesis using register_ann by simp
qed

section \<open>Login and attendance marking\<close>

lemma day_start_demo: "day_start (setHours0 demo_env)"
proof -
  have "t - t mod 86400000 \<le> t' - t' mod 86400000" if "t \<le> t'" for t t' :: int
  proof -
    from that have "t div 86400000 \<le> t' div 86400000" by (rule zdiv_mono1) simp
    then have "86400000 * (t div 86400000) \<le> 86400000 * (t' div 86400000)" by simp
    then show ?thesis by (simp add: minus_mod_eq_mult_div)
  qed
  then show ?thesis
    by (simp add: day_start_def demo_env_def)
qed

lemma demo_midnight: "setHours0 demo_env t = t - t mod 86400000"
  by (simp add: demo_env_def)

lemma ann_found: "user_findUnique ann_store ''a@x.com'' = Some ann_user"
  by (simp add: user_findUnique_def ann_store_def ann_user_def)

lemma ann_found_yesterday: "user_findUnique ann_yesterday ''a@x.com'' = Some ann_user"
  by (simp add: user_findUnique_def ann_user_def ann_yesterday_def)

lemma ann_pin_ok: "bcrypt_compare demo_env ''1234'' (user_pin ann_user)"
  by (simp add: demo_env_def ann_user_def)

lemma ann_pin_wrong: "\<not> bcrypt_compare demo_env ''0000'' (user_pin ann_user)"
  by (simp add: demo_env_def ann_user_def)

lemma ann_pin_empty: "\<not> bcrypt_compare demo_env [] (user_pin ann_user)"
  by (simp add: demo_env_def ann_user_def)

lemma login_validation:
  "falsy (login_email b) \<or> falsy (login_pin b)
   \<Longrightarrow> login E now ti b s = (Response 400 (Error ValidationError), s)"
  by (simp add: login_def)

lemma login_bad_pin:
  assumes "e \<noteq> []" "p \<noteq> []" "user_findUnique s e = Some u" "\<not> bcrypt_compare E p (user_pin u)"
  shows "login E now ti \<lparr>login_email = Some e, login_pin = Some p\<rparr> s
         = (Response 401 (Error InvalidCredentialsError), s)"
  using assms by (simp add: login_def)

lemma login_already:
  assumes "e \<noteq> []" "p \<noteq> []" "user_findUnique s e = Some u" "bcrypt_compare E p (user_pin u)"
    and "\<exists>a \<in> set (attendances s). att_userId a = user_id u \<and> setHours0 E now \<le> att_date a"
  shows "login E now ti \<lparr>login_email = Some e, login_pin = Some p\<rparr> s
         = (Response 200 (Message AlreadyMarked), s)"
proof -
  from assms(5) have "attendance_findFirst s (user_id u) (setHours0 E now) \<noteq> None"
    by (simp add: attendance_findFirst_def find_None_iff_no)
  then obtain a where "attendance_findFirst s (user_id u) (setHours0 E now) = Some a" by auto
  with assms(1-4) show ?thesis by (simp add: login_def)
qed

lemma login_inserts:
  assumes "e \<noteq> []" "p \<noteq> []" "user_findUnique s e = Some u" "bcrypt_compare E p (user_pin u)"
    and "\<forall>a \<in> set (attendances s). att_userId a = user_id u \<longrightarrow> att_date a < setHours0 E now"
  shows "login E now ti \<lparr>login_email = Some e, login_pin = Some p\<rparr> s
         = (Response 200 (Message AttendanceMarked),
            s\<lparr>attendances := attendances s
                 @ [\<lparr>att_id = att_seq s + 1, att_date = ti, att_userId = user_id u\<rparr>],
              att_seq := att_seq s + 1\<rparr>)"
proof -
  from assms(5) have none: "attendance_findFirst s (user_id u) (setHours0 E now) = None"
    by (auto simp: attendance_findFirst_def find_None_iff_no)
  from assms(3) have "u \<in> set (users s)" by (simp add: user_findUnique_Some)
  then have "\<exists>v \<in> set (users s). user_id v = user_id u" by blast
  then have "attendance_create s ti (user_id u)
             = Inr (s\<lparr>attendances := attendances s
                        @ [\<lparr>att_id = att_seq s + 1, att_date = ti, att_userId = user_id u\<rparr>],
                      att_seq := att_seq s + 1\<rparr>)"
    by (simp add: attendance_create_def)
  with none assms(1-4) show ?thesis by (simp add: login_def)
qed

lemma logins_already:
  assumes "e \<noteq> []" "p \<noteq> []" "user_findUnique s e = Some u" "bcrypt_compare E p (user_pin u)"
    and "\<forall>(now, ti) \<in> set ts. \<exists>a \<in> set (attendances s).
           att_userId a = user_id u \<and> setHours0 E now \<le> att_date a"
  shows "logins E ts \<lparr>login_email = Some e, login_pin = Some p\<rparr> s
         = (replicate (length ts) (Response 200 (Message AlreadyMarked)), s)"
  using assms(5)
proof (induction ts)
  case Nil
  show ?case by simp
next
  case (Cons x ts)
  obtain now ti where x: "x = (now, ti)" by (cases x)
  from Cons.prems x
  have "\<exists>a \<in> set (attendances s). att_userId a = user_id u \<and> setHours0 E now \<le> att_date a"
    by simp
  with assms(1-4) have "login E now ti \<lparr>login_email = Some e, login_pin = Some p\<rparr> s
         = (Response 200 (Message AlreadyMarked), s)" by (rule login_already)
  moreover from Cons have "logins E ts \<lparr>login_email = Some e, login_pin = Some p\<rparr> s
         = (replicate (length ts) (Response 200 (Message AlreadyMarked)), s)" by simp
  ultimately show ?case by (simp add: x)
qed

text \<open>
  A record that is not from the future and not of today's calendar day lies before today's
  midnight, which is how the query of the handler tells the days apart.
\<close>

lemma not_yet_today:
  assumes ds: "day_start f"
    and "d \<le> now" "f d \<noteq> f now"
  shows "d < f now"
proof (rule ccontr)
  assume "\<not> d < f now"
  then have "f now \<le> d" by simp
  with ds have "f (f now) \<le> f d" unfolding day_start_def by blast
  with ds have "f now \<le> f d" unfolding day_start_def by simp
  moreover from ds assms(2) have "f d \<le> f now" unfolding day_start_def by blast
  ultimately show False using assms(3) by simp
qed

lemma insert_same_day:
  assumes "day_start f" "now \<le> ti" "ti \<le> now'" "f now' = f now"
  shows "f ti = f now"
proof -
  from assms(1,2) have "f now \<le> f ti" unfolding day_start_def by blast
  moreover from assms(1,3) have "f ti \<le> f now'" unfolding day_start_def by blast
  ultimately show ?thesis using assms(4) by simp
qed

text \<open>
  C1, as the code has it. A registered user logs in with valid credentials on a calendar
  day for which the store holds no record of that user yet (and no record of that user from
  the future), and the insert of that login runs on the same calendar day as the clock
  reading of the handler; then the same login is repeated any number of times, each within
  that day, one execution after the other. The first login answers with the marked message
  and appends one record; every later one answers with the already-marked message and
  returns the store unchanged; and the store then holds exactly one record of that user on
  that day. By \<open>insert_same_day\<close> the condition on the insert holds whenever a later login
  of the same day starts after it on a clock that does not go back.
\<close>

theorem login_once_per_day:
  assumes ds: "day_start (setHours0 E)"
    and creds: "e \<noteq> []" "p \<noteq> []" "user_findUnique s e = Some u"
      "bcrypt_compare E p (user_pin u)"
    and past: "\<forall>a \<in> set (attendances s). att_userId a = user_id u \<longrightarrow> att_date a \<le> now"
    and first: "\<forall>a \<in> set (attendances s).
                  att_userId a = user_id u \<longrightarrow> setHours0 E (att_date a) \<noteq> setHours0 E now"
    and ins: "setHours0 E ti = setHours0 E now"
    and later: "\<forall>(now', ti') \<in> set ts. setHours0 E now' = setHours0 E now"
  shows "case login E now ti \<lparr>login_email = Some e, login_pin = Some p\<rparr> s of
           (r1, s1) \<Rightarrow>
             r1 = Response 200 (Message AttendanceMarked)
             \<and> attendances s1
                 = attendances s @ [\<lparr>att_id = att_seq s + 1, att_date = ti, att_userId = user_id u\<rparr>]
             \<and> logins E ts \<lparr>login_email = Some e, login_pin = Some p\<rparr> s1
                 = (replicate (length ts) (Response 200 (Message AlreadyMarked)), s1)
             \<and> length (filter (\<lambda>a. att_userId a = user_id u
                                    \<and> setHours0 E (att_date a) = setHours0 E now)
                         (attendances s1)) = 1"
proof -
  let ?new = "\<lparr>att_id = att_seq s + 1, att_date = ti, att_userId = user_id u\<rparr>"
  let ?s1 = "s\<lparr>attendances := attendances s @ [?new], att_seq := att_seq s + 1\<rparr>"
  let ?b = "\<lparr>login_email = Some e, login_pin = Some p\<rparr>"
  have "\<forall>a \<in> set (attendances s). att_userId a = user_id u \<longrightarrow> att_date a < setHours0 E now"
    using not_yet_today [OF ds] past first by blast
  with creds have a: "login E now ti ?b s = (Response 200 (Message AttendanceMarked), ?s1)"
    by (rule login_inserts)
  from ds have "setHours0 E ti \<le> ti" unfolding day_start_def by blast
  with ins have "setHours0 E now \<le> ti" by simp
  with later have "\<forall>(now', ti') \<in> set ts. \<exists>a \<in> set (attendances ?s1).
      att_userId a = user_id u \<and> setHours0 E now' \<le> att_date a"
    by auto
  moreover from creds(3) have "user_findUnique ?s1 e = Some u"
    by (simp add: user_findUnique_def)
  ultimately
  have b: "logins E ts ?b ?s1 = (replicate (length ts) (Response 200 (Message AlreadyMarked)), ?s1)"
    using creds by (intro logins_already)
  from first
  have "filter (\<lambda>a. att_userId a = user_id u \<and> setHours0 E (att_date a) = setHours0 E now)
          (attendances s) = []"
    by (auto simp: filter_empty_conv)
  with ins
  have c: "length (filter (\<lambda>a. att_userId a = user_id u
                               \<and> setHours0 E (att_date a) = setHours0 E now)
                    (attendances ?s1)) = 1"
    by simp
  from b c show ?thesis unfolding a by simp
qed

theorem login_once_per_day_witness:
  "login demo_env 86401000 86401005 (ann_login ''1234'') ann_yesterday
     = (Response 200 (Message AttendanceMarked), ann_today)
   \<and> logins demo_env [(86402000, 86402001), (86500000, 86500003)] (ann_login ''1234'') ann_today
       = ([Response 200 (Message AlreadyMarked), Response 200 (Message AlreadyMarked)], ann_today)
   \<and> length (filter (\<lambda>a. att_userId a = 1 \<and> setHours0 demo_env (att_date a) = 86400000)
        (attendances ann_today)) = 1"
proof -
  have l: "login demo_env 86401000 86401005 (ann_login ''1234'') ann_yesterday
     = (Response 200 (Message AttendanceMarked), ann_today)"
    using ann_pin_ok ann_found_yesterday
    by (simp add: login_def ann_login_def attendance_findFirst_def
        attendance_create_def demo_midnight ann_user_def ann_yesterday_def ann_today_def)
  have "case login demo_env 86401000 86401005 (ann_login ''1234'') ann_yesterday of
          (r1, s1) \<Rightarrow>
            r1 = Response 200 (Message AttendanceMarked)
            \<and> attendances s1
                = attendances ann_yesterday
                  @ [\<lparr>att_id = att_seq ann_yesterday + 1, att_date = 86401005,
                      att_userId = user_id ann_user\<rparr>]
            \<and> logins demo_env [(86402000, 86402001), (86500000, 86500003)] (ann_login ''1234'') s1
                = (replicate (length [(86402000::int, 86402001::int), (86500000, 86500003)])
                     (Response 200 (Message AlreadyMarked)), s1)
            \<and> length (filter (\<lambda>a. att_userId a = user_id ann_user
                  \<and> setHours0 demo_env (att_date a) = setHours0 demo_env 86401000)
                  (attendances s1)) = 1"
    unfolding ann_login_def
  proof (rule login_once_per_day)
    show "day_start (setHours0 demo_env)" by (rule day_start_demo)
    show "user_findUnique ann_yesterday ''a@x.com'' = Some ann_user" by (rule ann_found_yesterday)
    show "bcrypt_compare demo_env ''1234'' (user_pin ann_user)" by (rule ann_pin_ok)
    show "\<forall>a\<in>set (attendances ann_yesterday).
       att_userId a = user_id ann_user \<longrightarrow> att_date a \<le> 86401000"
      by (simp add: ann_yesterday_def)
    show "\<forall>a\<in>set (attendances ann_yesterday). att_userId a = user_id ann_user \<longrightarrow>
       setHours0 demo_env (att_date a) \<noteq> setHours0 demo_env 86401000"
      by (simp add: ann_yesterday_def demo_midnight)
    show "setHours0 demo_env 86401005 = setHours0 demo_env 86401000"
      by (simp add: demo_midnight)
    show "\<forall>(now', ti')\<in>set [(86402000, 86402001), (86500000, 86500003)].
       setHours0 demo_env now' = setHours0 demo_env 86401000"
      by (simp add: demo_midnight)
  qed simp_all
  then show ?thesis unfolding l
    by (simp add: ann_user_def demo_midnight ann_yesterday_def)
qed

text \<open>
  Without the condition on the insert the claim fails. Ann, who has no record at all, logs
  in one millisecond before midnight and the insert runs one millisecond after it: the
  login answers with the marked message, the record is of the next day, so the day of the
  login has no record of hers, and her first login of the next day answers with the
  already-marked message.
\<close>

theorem login_midnight_counterexample:
  "user_findUnique ann_store ''a@x.com'' = Some ann_user
   \<and> bcrypt_compare demo_env ''1234'' (user_pin ann_user)
   \<and> attendances ann_store = []
   \<and> login demo_env 86399999 86400001 (ann_login ''1234'') ann_store
       = (Response 200 (Message AttendanceMarked),
          ann_store\<lparr>attendances := [\<lparr>att_id = 1, att_date = 86400001, att_userId = 1\<rparr>],
                    att_seq := 1\<rparr>)
   \<and> setHours0 demo_env 86399999 = 0
   \<and> setHours0 demo_env 86400001 = 86400000
   \<and> setHours0 demo_env 86400500 = 86400000
   \<and> login demo_env 86400500 86400501 (ann_login ''1234'')
        (ann_store\<lparr>attendances := [\<lparr>att_id = 1, att_date = 86400001, att_userId = 1\<rparr>],
                  att_seq := 1\<rparr>)
       = (Response 200 (Message AlreadyMarked),
          ann_store\<lparr>attendances := [\<lparr>att_id = 1, att_date = 86400001, att_userId = 1\<rparr>],
                    att_seq := 1\<rparr>)"
  using ann_found ann_pin_ok
  by (simp add: login_def ann_login_def user_findUnique_def attendance_findFirst_def
      attendance_create_def demo_midnight ann_store_def ann_user_def)

text \<open>
  C3, as the code has it. A login whose non-empty email finds a stored user and whose
  non-empty PIN fails the comparison with that user's digest is answered with 401 and the
  invalid-credentials error; when the PIN is missing or empty the guard at the top of the
  handler answers first, with 400 and the validation error. Either way the store, and with
  it the attendance ledger, is returned unchanged.
\<close>

theorem login_wrong_pin:
  assumes "e \<noteq> []" "user_findUnique s e = Some u"
  shows "(p \<noteq> [] \<and> \<not> bcrypt_compare E p (user_pin u)
            \<longrightarrow> login E now ti \<lparr>login_email = Some e, login_pin = Some p\<rparr> s
                  = (Response 401 (Error InvalidCredentialsError), s))
         \<and> (pin \<in> {None, Some []}
            \<longrightarrow> login E now ti \<lparr>login_email = Some e, login_pin = pin\<rparr> s
                  = (Response 400 (Error ValidationError), s))"
proof (intro conjI impI)
  assume "p \<noteq> [] \<and> \<not> bcrypt_compare E p (user_pin u)"
  with assms show "login E now ti \<lparr>login_email = Some e, login_pin = Some p\<rparr> s
                  = (Response 401 (Error InvalidCredentialsError), s)"
    by (intro login_bad_pin) auto
next
  assume "pin \<in> {None, Some []}"
  then have "falsy pin" by (auto simp: falsy_iff)
  then show "login E now ti \<lparr>login_email = Some e, login_pin = pin\<rparr> s
                  = (Response 400 (Error ValidationError), s)"
    by (intro login_validation) simp
qed

theorem login_wrong_pin_witness:
  "login demo_env 2000 2001 (ann_login ''0000'') ann_store
     = (Response 401 (Error InvalidCredentialsError), ann_store)
   \<and> login demo_env 2000 2001 (ann_login []) ann_store
     = (Response 400 (Error ValidationError), ann_store)"
  using login_wrong_pin [where e = "''a@x.com''" and s = ann_store and u = ann_user
      and p = "''0000''" and E = demo_env and pin = "Some []" and now = 2000 and ti = 2001]
    ann_found ann_pin_wrong
  by (simp add: ann_login_def)

text \<open>
  The claim as written fails for the empty PIN: the email matches Ann, the empty PIN does
  not match her digest, and the answer is not the 401 of the claim.
\<close>

theorem login_empty_pin_counterexample:
  "user_findUnique ann_store ''a@x.com'' = Some ann_user
   \<and> \<not> bcrypt_compare demo_env [] (user_pin ann_user)
   \<and> login demo_env 2000 2001 (ann_login []) ann_store
       = (Response 400 (Error ValidationError), ann_store)
   \<and> fst (login demo_env 2000 2001 (ann_login []) ann_store)
       \<noteq> Response 401 (Error InvalidCredentialsError)"
  using ann_found ann_pin_empty by (simp add: login_def ann_login_def)

text \<open>
  C7, as the code has it. When a login with valid credentials finds no record of the user
  dated at or after today's midnight, it appends one record for that user and answers with
  the marked message. The record's date is the default of the column, the store's clock
  \<open>ti\<close> when the insert runs; the handler passes no date, and the value \<open>now\<close> it read
  itself serves only to compute the midnight of the query.
\<close>

theorem login_marks_attendance:
  assumes "e \<noteq> []" "p \<noteq> []" "user_findUnique s e = Some u" "bcrypt_compare E p (user_pin u)"
    and "attendance_findFirst s (user_id u) (setHours0 E now) = None"
  shows "login E now ti \<lparr>login_email = Some e, login_pin = Some p\<rparr> s
         = (Response 200 (Message AttendanceMarked),
            s\<lparr>attendances := attendances s
                 @ [\<lparr>att_id = att_seq s + 1, att_date = ti, att_userId = user_id u\<rparr>],
              att_seq := att_seq s + 1\<rparr>)"
proof -
  from assms(5)
  have "\<forall>a \<in> set (attendances s). att_userId a = user_id u \<longrightarrow> att_date a < setHours0 E now"
    by (auto simp: attendance_findFirst_def find_None_iff_no)
  with assms(1-4) show ?thesis by (rule login_inserts)
qed

theorem login_marks_attendance_witness:
  "attendance_findFirst ann_yesterday 1 (setHours0 demo_env 86401000) = None
   \<and> login demo_env 86401000 86401005 (ann_login ''1234'') ann_yesterday
       = (Response 200 (Message AttendanceMarked), ann_today)"
proof -
  have n: "attendance_findFirst ann_yesterday (user_id ann_user) (setHours0 demo_env 86401000) = None"
    by (simp add: attendance_findFirst_def ann_yesterday_def demo_midnight)
  from login_marks_attendance [where e = "''a@x.com''" and p = "''1234''" and s = ann_yesterday
      and u = ann_user and E = demo_env and now = 86401000 and ti = 86401005,
      OF _ _ ann_found_yesterday ann_pin_ok n]
  have "login demo_env 86401000 86401005 (ann_login ''1234'') ann_yesterday
       = (Response 200 (Message AttendanceMarked), ann_today)"
    by (simp add: ann_login_def ann_today_def ann_yesterday_def ann_user_def)
  with n show ?thesis by (simp add: ann_user_def)
qed

text \<open>
  The claim as written fails when the clock moves between the handler's reading and the
  insert: the login that read 86401000 leaves a record dated 86401005.
\<close>

theorem login_timestamp_counterexample:
  "fst (login demo_env 86401000 86401005 (ann_login ''1234'') ann_store)
     = Response 200 (Message AttendanceMarked)
   \<and> map att_date (attendances (snd (login demo_env 86401000 86401005 (ann_login ''1234'') ann_store)))
     = [86401005]
   \<and> (86401005 :: int) \<noteq> 86401000"
  using ann_pin_ok ann_found
  by (simp add: login_def ann_login_def attendance_findFirst_def
      attendance_create_def ann_user_def ann_store_def)

text \<open>
  The scenario of the specification: Ann registers, logs in, logs in again on the same day,
  and then tries a wrong PIN.
\<close>

lemma scenario_ann:
  "register demo_env ''s'' 1000 ann empty_store
     = (Response 200 (Registered ''Ann'' 1 ''a@x.com''), ann_store)
   \<and> login demo_env 2000 2001 (ann_login ''1234'') ann_store
     = (Response 200 (Message AttendanceMarked),
        ann_store\<lparr>attendances := [\<lparr>att_id = 1, att_date = 2001, att_userId = 1\<rparr>], att_seq := 1\<rparr>)
   \<and> login demo_env 2500 2501 (ann_login ''1234'')
        (ann_store\<lparr>attendances := [\<lparr>att_id = 1, att_date = 2001, att_userId = 1\<rparr>], att_seq := 1\<rparr>)
     = (Response 200 (Message AlreadyMarked),
        ann_store\<lparr>attendances := [\<lparr>att_id = 1, att_date = 2001, att_userId = 1\<rparr>], att_seq := 1\<rparr>)
   \<and> login demo_env 3000 3001 (ann_login ''0000'')
        (ann_store\<lparr>attendances := [\<lparr>att_id = 1, att_date = 2001, att_userId = 1\<rparr>], att_seq := 1\<rparr>)
     = (Response 401 (Error InvalidCredentialsError),
        ann_store\<lparr>attendances := [\<lparr>att_id = 1, att_date = 2001, att_userId = 1\<rparr>], att_seq := 1\<rparr>)"
  using register_ann ann_pin_ok ann_pin_wrong
  by (simp add: login_def ann_login_def user_findUnique_def attendance_findFirst_def
      attendance_create_def demo_midnight ann_store_def ann_user_def)

section \<open>Export\<close>

lemma include_user_fst: "include_user s as = Inr js \<Longrightarrow> map fst js = as"
  by (induction as arbitrary: js) (auto split: option.splits sum.splits)

lemma include_user_owner:
  "include_user s as = Inr js \<Longrightarrow> (a, u) \<in> set js \<Longrightarrow> u \<in> set (users s) \<and> user_id u = att_userId a"
  by (induction as arbitrary: js) (auto split: option.splits sum.splits dest: find_Some_mem)

lemma include_user_total:
  assumes "\<forall>a \<in> set as. \<exists>u \<in> set (users s). user_id u = att_userId a"
  shows "\<exists>js. include_user s as = Inr js"
  using assms
proof (induction as)
  case Nil
  show ?case by simp
next
  case (Cons a as)
  then obtain js where js: "include_user s as = Inr js" by auto
  from Cons.prems have "find (\<lambda>u. user_id u = att_userId a) (users s) \<noteq> None"
    by (simp add: find_None_iff_no)
  then obtain u where "find (\<lambda>u. user_id u = att_userId a) (users s) = Some u" by auto
  with js show ?case by simp
qed

lemma findMany_total:
  assumes "fk_ok s"
  shows "\<exists>js. attendance_findMany s sod = Inr js
               \<and> map fst js = filter (\<lambda>a. sod \<le> att_date a) (attendances s)"
proof -
  from assms have "\<forall>a \<in> set (filter (\<lambda>a. sod \<le> att_date a) (attendances s)).
      \<exists>u \<in> set (users s). user_id u = att_userId a"
    by (simp add: fk_ok_def)
  then obtain js where "include_user s (filter (\<lambda>a. sod \<le> att_date a) (attendances s)) = Inr js"
    using include_user_total by blast
  then show ?thesis
    by (auto simp: attendance_findMany_def dest: include_user_fst)
qed

lemma findMany_none:
  assumes "\<forall>a \<in> set (attendances s). att_date a < sod"
  shows "attendance_findMany s sod = Inr []"
proof -
  from assms have "filter (\<lambda>a. sod \<le> att_date a) (attendances s) = []"
    by (auto simp: filter_empty_conv)
  then show ?thesis by (simp add: attendance_findMany_def)
qed

lemma export_nothing_found:
  "attendance_findMany s (setHours0 E now) = Inr []
   \<Longrightarrow> export_attendance E now format s = Response 404 (Error NoDataError)"
  by (simp add: export_attendance_def)

lemma export_other_format:
  assumes "attendance_findMany s (setHours0 E now) = Inr js" "js \<noteq> []"
    and "format \<noteq> Some ''csv''" "format \<noteq> Some ''pdf''"
  shows "export_attendance E now format s = Response 400 (Error UnsupportedFormatError)"
  using assms by (simp add: export_attendance_def)

text \<open>
  C6. Whatever the format parameter, when no attendance record is dated at or after
  today's local midnight the export answers 404 with the no-data error, however many
  earlier records the store holds.
\<close>

theorem export_no_data:
  assumes "\<forall>a \<in> set (attendances s). att_date a < setHours0 E now"
  shows "export_attendance E now format s = Response 404 (Error NoDataError)"
  using assms by (intro export_nothing_found findMany_none)

text \<open>
  C10. The empty check comes before the format check: with a format that is neither
  \<open>csv\<close> nor \<open>pdf\<close> (or none at all) and no record dated at or after today's midnight, the
  answer is the 404 no-data error and not the 400 unsupported-format error.
\<close>

theorem export_empty_before_format:
  assumes "format \<noteq> Some ''csv''" "format \<noteq> Some ''pdf''"
    and "\<forall>a \<in> set (attendances s). att_date a < setHours0 E now"
  shows "export_attendance E now format s = Response 404 (Error NoDataError)
         \<and> export_attendance E now format s \<noteq> Response 400 (Error UnsupportedFormatError)"
proof -
  from assms(3) have "attendance_findMany s (setHours0 E now) = Inr []" by (rule findMany_none)
  then have "export_attendance E now format s = Response 404 (Error NoDataError)"
    by (rule export_nothing_found)
  then show ?thesis by simp
qed

text \<open>
  C5. On a store that satisfies its foreign key, when some record is dated at or after
  today's midnight and the format parameter is neither \<open>csv\<close> nor \<open>pdf\<close> (a missing
  parameter is \<open>None\<close>), the export answers 400 with the unsupported-format error.
\<close>

theorem export_unsupported_format:
  assumes "fk_ok s"
    and "\<exists>a \<in> set (attendances s). setHours0 E now \<le> att_date a"
    and "format \<noteq> Some ''csv''" "format \<noteq> Some ''pdf''"
  shows "export_attendance E now format s = Response 400 (Error UnsupportedFormatError)"
proof -
  from assms(1) obtain js where js: "attendance_findMany s (setHours0 E now) = Inr js"
    and fst: "map fst js = filter (\<lambda>a. setHours0 E now \<le> att_date a) (attendances s)"
    using findMany_total by blast
  from assms(2) have "filter (\<lambda>a. setHours0 E now \<le> att_date a) (attendances s) \<noteq> []"
    by (simp add: filter_empty_conv)
  with fst have "js \<noteq> []" by auto
  with js assms(3,4) show ?thesis by (intro export_other_format)
qed

lemma csv_row_project:
  "csv_row E [''sn'', ''name'', ''email'', ''phone'', ''department'', ''date'', ''time'']
     (project E k au)
   = (case au of (a, u) \<Rightarrow> join '',''
       [csv_value E (CNum (k + 1)), csv_value E (CStr (user_name u)),
        csv_value E (CStr (user_email u)), csv_value E (CStr (user_phone u)),
        csv_value E (CStr (user_department u)), csv_value E (CStr (toISODate E (att_date a))),
        csv_value E (CStr (toLocaleTime E (att_date a)))])"
  by (cases au) (simp add: csv_row_def project_def)

lemma project_keys:
  "map fst (project E k au) = [''sn'', ''name'', ''email'', ''phone'', ''department'', ''date'', ''time'']"
  by (cases au) (simp add: project_def)

lemma project_sn: "map_of (project E k au) ''sn'' = Some (CNum (k + 1))"
  by (cases au) (simp add: project_def)

lemma project_all_sn:
  "map (\<lambda>r. map_of r ''sn'') (project_all E js) = map (\<lambda>k. Some (CNum k)) [1..<length js + 1]"
proof -
  have "map (\<lambda>r. map_of r ''sn'') (project_all E js)
        = map ((\<lambda>k. Some (CNum (k + 1))) \<circ> fst) (enumerate 0 js)"
    by (simp add: project_all_def project_sn split_def comp_def)
  also have "\<dots> = map (\<lambda>k. Some (CNum (k + 1))) (map fst (enumerate 0 js))"
    by (simp only: map_map)
  also have "\<dots> = map (\<lambda>k. Some (CNum (k + 1))) [0..<length js]"
    by (simp only: map_fst_enumerate add_0)
  also have "\<dots> = map (\<lambda>k. Some (CNum k)) (map Suc [0..<length js])"
    by (simp add: comp_def)
  also have "map Suc [0..<length js] = [1..<length js + 1]"
    by (simp add: map_Suc_upt)
  finally show ?thesis .
qed

lemma split_lines_clean: "CHR 0x0A \<notin> set l \<Longrightarrow> split_lines l = [l]"
  by (induction l) auto

lemma split_lines_append:
  "CHR 0x0A \<notin> set l \<Longrightarrow> split_lines (l @ CHR 0x0A # t) = l # split_lines t"
  by (induction l) auto

lemma split_lines_join:
  "ls \<noteq> [] \<Longrightarrow> \<forall>l \<in> set ls. CHR 0x0A \<notin> set l \<Longrightarrow> split_lines (join [CHR 0x0A] ls) = ls"
proof (induction "[CHR 0x0A]" ls rule: join.induct)
  case 1
  then show ?case by simp
next
  case (2 x)
  then show ?case by (simp add: split_lines_clean)
next
  case (3 x y ys)
  then show ?case by (simp add: split_lines_append)
qed

lemma join_clean:
  "CHR 0x0A \<notin> set sep \<Longrightarrow> \<forall>x \<in> set xs. CHR 0x0A \<notin> set x \<Longrightarrow> CHR 0x0A \<notin> set (join sep xs)"
  by (induction sep xs rule: join.induct) auto

lemma csv_header_clean:
  assumes "\<forall>v. CHR 0x0A \<notin> set v \<longrightarrow> CHR 0x0A \<notin> set (csv_value E (CStr v))"
  shows "CHR 0x0A \<notin> set (csv_header E [''sn'', ''name'', ''email'', ''phone'', ''department'', ''date'', ''time''])"
  unfolding csv_header_def using assms by (intro join_clean) simp_all


lemma show_nat_digits: "set (show_nat n) \<subseteq> set ''0123456789''"
proof (induction n rule: show_nat.induct)
  case (1 n)
  have d: "''0123456789'' ! k \<in> set ''0123456789''" if "k < 10" for k
    using that by (intro nth_mem) simp
  show ?case
  proof (cases "n < 10")
    case True
    with d [of n] show ?thesis by (subst show_nat.simps) simp
  next
    case False
    have "n mod 10 < 10" by simp
    from d [OF this] 1 False show ?thesis by (subst show_nat.simps) simp
  qed
qed

lemma show_nat_clean: "CHR 0x0A \<notin> set (show_nat n)"
  using show_nat_digits [of n] by auto

lemma json2csv_value_clean:
  "CHR 0x0A \<notin> set (json2csv_value (CNum n))"
  "CHR 0x0A \<notin> set v \<Longrightarrow> CHR 0x0A \<notin> set (json2csv_value (CStr v))"
  by (auto simp: show_nat_clean)

text \<open>
  C4, as the code has it. The query for today's records returns the \<open>N \<ge> 1\<close> joined rows
  \<open>js\<close>; the line break of json2csv is the line feed, its formatter puts no line feed into
  a number and none into a string that has none; and no name, email, phone, department,
  date or time of \<open>js\<close> holds a line feed. Then the CSV export answers 200 with the text
  that json2csv makes of the projected rows under the keys of the first of them, and the
  lines of that text are the header line of the seven keys followed by one line per row of
  \<open>js\<close>, in the order of \<open>js\<close>, the line of the row at position \<open>k\<close> (from 0) starting
  with the cell of the number \<open>k + 1\<close>: \<open>N + 1\<close> lines in all, and the \<open>sn\<close> entries of the
  projected rows are \<open>1, ..., N\<close>.
\<close>

theorem export_csv_lines:
  assumes q: "attendance_findMany s (setHours0 E now) = Inr js" "js \<noteq> []"
    and eol: "csv_eol E = [CHR 0x0A]"
    and num: "\<forall>n. CHR 0x0A \<notin> set (csv_value E (CNum n))"
    and str: "\<forall>v. CHR 0x0A \<notin> set v \<longrightarrow> CHR 0x0A \<notin> set (csv_value E (CStr v))"
    and clean: "\<forall>(a, u) \<in> set js.
        CHR 0x0A \<notin> set (user_name u) \<and> CHR 0x0A \<notin> set (user_email u)
        \<and> CHR 0x0A \<notin> set (user_phone u) \<and> CHR 0x0A \<notin> set (user_department u)
        \<and> CHR 0x0A \<notin> set (toISODate E (att_date a))
        \<and> CHR 0x0A \<notin> set (toLocaleTime E (att_date a))"
  shows "export_attendance E now (Some ''csv'') s
         = Response 200
             (CsvAttachment (''attendance-'' @ toISODate E (setHours0 E now) @ ''.csv'')
                (json2csv_parse E (map fst (hd (project_all E js))) (project_all E js)))
         \<and> split_lines (csv_text (export_attendance E now (Some ''csv'') s))
             = csv_header E [''sn'', ''name'', ''email'', ''phone'', ''department'', ''date'', ''time'']
               # map (\<lambda>(k, a, u). join '',''
                        [csv_value E (CNum (k + 1)), csv_value E (CStr (user_name u)),
                         csv_value E (CStr (user_email u)), csv_value E (CStr (user_phone u)),
                         csv_value E (CStr (user_department u)),
                         csv_value E (CStr (toISODate E (att_date a))),
                         csv_value E (CStr (toLocaleTime E (att_date a)))])
                   (enumerate 0 js)
         \<and> length (split_lines (csv_text (export_attendance E now (Some ''csv'') s))) = length js + 1
         \<and> map (\<lambda>r. map_of r ''sn'') (project_all E js) = map (\<lambda>k. Some (CNum k)) [1..<length js + 1]"
proof -
  let ?keys = "[''sn'', ''name'', ''email'', ''phone'', ''department'', ''date'', ''time'']"
  let ?line = "\<lambda>(k, a, u). join '',''
                        [csv_value E (CNum (k + 1)), csv_value E (CStr (user_name u)),
                         csv_value E (CStr (user_email u)), csv_value E (CStr (user_phone u)),
                         csv_value E (CStr (user_department u)),
                         csv_value E (CStr (toISODate E (att_date a))),
                         csv_value E (CStr (toLocaleTime E (att_date a)))]"
  let ?lines = "csv_header E ?keys # map ?line (enumerate 0 js)"
  from q(2) obtain j js' where js: "js = j # js'" by (cases js) auto
  have data: "project_all E js = project E 0 j # map (\<lambda>(k, au). project E k au) (enumerate 1 js')"
    by (simp add: project_all_def js)
  then have keys: "map fst (hd (project_all E js)) = ?keys"
    by (simp add: project_keys)
  have rows: "map (csv_row E ?keys) (project_all E js) = map ?line (enumerate 0 js)"
    by (simp add: project_all_def csv_row_project split_def)
  have a: "export_attendance E now (Some ''csv'') s
        = Response 200
             (CsvAttachment (''attendance-'' @ toISODate E (setHours0 E now) @ ''.csv'')
                (json2csv_parse E ?keys (project_all E js)))"
    using q by (simp add: export_attendance_def data project_keys)
  have content: "csv_text (export_attendance E now (Some ''csv'') s) = join [CHR 0x0A] ?lines"
    unfolding a by (simp add: json2csv_parse_def csv_lines_def rows eol)
  have "CHR 0x0A \<notin> set (?line x)" if "x \<in> set (enumerate 0 js)" for x
  proof -
    obtain k a u where x: "x = (k, a, u)" by (cases x)
    with that have "(a, u) \<in> set js" by (auto simp: in_set_enumerate_eq dest: nth_mem)
    with clean have c: "CHR 0x0A \<notin> set (user_name u)" "CHR 0x0A \<notin> set (user_email u)"
        "CHR 0x0A \<notin> set (user_phone u)" "CHR 0x0A \<notin> set (user_department u)"
        "CHR 0x0A \<notin> set (toISODate E (att_date a))"
        "CHR 0x0A \<notin> set (toLocaleTime E (att_date a))"
      by auto
    have "CHR 0x0A \<notin> set (join '',''
                        [csv_value E (CNum (k + 1)), csv_value E (CStr (user_name u)),
                         csv_value E (CStr (user_email u)), csv_value E (CStr (user_phone u)),
                         csv_value E (CStr (user_department u)),
                         csv_value E (CStr (toISODate E (att_date a))),
                         csv_value E (CStr (toLocaleTime E (att_date a)))])"
      using num str c by (intro join_clean) simp_all
    then show ?thesis by (simp add: x)
  qed
  with csv_header_clean [OF str] have "\<forall>l \<in> set ?lines. CHR 0x0A \<notin> set l"
    by auto
  then have split: "split_lines (join [CHR 0x0A] ?lines) = ?lines"
    by (intro split_lines_join) simp_all
  have b: "split_lines (csv_text (export_attendance E now (Some ''csv'') s)) = ?lines"
    unfolding content by (rule split)
  have c: "length (split_lines (csv_text (export_attendance E now (Some ''csv'') s))) = length js + 1"
    unfolding b by simp
  from a b c project_all_sn [of E js] show ?thesis unfolding keys by simp
qed

lemma roster_today:
  "attendance_findMany roster (setHours0 demo_env 86405000)
   = Inr [(\<lparr>att_id = 2, att_date = 86401005, att_userId = 1\<rparr>, ann_user),
          (\<lparr>att_id = 3, att_date = 86402000, att_userId = 2\<rparr>, bob_user)]"
  by (simp add: attendance_findMany_def roster_def demo_midnight ann_user_def bob_user_def)

lemma show_nat_demo:
  "show_nat (Suc 0) = ''1''" "show_nat (Suc (Suc 0)) = ''2''" "show_nat 1005 = ''1005''"
  "show_nat 2000 = ''2000''"
  by (simp_all add: show_nat.simps)

lemma demo_fields:
  "csv_value demo_env c = json2csv_value c"
  "csv_eol demo_env = [CHR 0x0A]"
  "toISODate demo_env t = ''day-'' @ show_nat (nat (t div 86400000))"
  "toLocaleTime demo_env t = show_nat (nat (t mod 86400000))"
  by (simp_all add: demo_env_def)

lemma demo_clean:
  "\<forall>n. CHR 0x0A \<notin> set (csv_value demo_env (CNum n))"
  "\<forall>v. CHR 0x0A \<notin> set v \<longrightarrow> CHR 0x0A \<notin> set (csv_value demo_env (CStr v))"
  "CHR 0x0A \<notin> set (toISODate demo_env t)"
  "CHR 0x0A \<notin> set (toLocaleTime demo_env t)"
  by (simp_all add: demo_fields json2csv_value_clean show_nat_clean del: json2csv_value.simps)

theorem export_csv_lines_witness:
  "split_lines (csv_text (export_attendance demo_env 86405000 (Some ''csv'') roster))
   = [[CHR 0x22] @ ''sn'' @ [CHR 0x22] @ '','' @ [CHR 0x22] @ ''name'' @ [CHR 0x22] @ '',''
        @ [CHR 0x22] @ ''email'' @ [CHR 0x22] @ '','' @ [CHR 0x22] @ ''phone'' @ [CHR 0x22] @ '',''
        @ [CHR 0x22] @ ''department'' @ [CHR 0x22] @ '','' @ [CHR 0x22] @ ''date'' @ [CHR 0x22] @ '',''
        @ [CHR 0x22] @ ''time'' @ [CHR 0x22],
      ''1,'' @ [CHR 0x22] @ ''Ann'' @ [CHR 0x22] @ '','' @ [CHR 0x22] @ ''a@x.com'' @ [CHR 0x22] @ '',''
        @ [CHR 0x22] @ ''555'' @ [CHR 0x22] @ '','' @ [CHR 0x22] @ ''Eng'' @ [CHR 0x22] @ '',''
        @ [CHR 0x22] @ ''day-1'' @ [CHR 0x22] @ '','' @ [CHR 0x22] @ ''1005'' @ [CHR 0x22],
      ''2,'' @ [CHR 0x22] @ ''Bob'' @ [CHR 0x22] @ '','' @ [CHR 0x22] @ ''b@x.com'' @ [CHR 0x22] @ '',''
        @ [CHR 0x22] @ ''556'' @ [CHR 0x22] @ '','' @ [CHR 0x22] @ ''Ops'' @ [CHR 0x22] @ '',''
        @ [CHR 0x22] @ ''day-1'' @ [CHR 0x22] @ '','' @ [CHR 0x22] @ ''2000'' @ [CHR 0x22]]
   \<and> length (split_lines (csv_text (export_attendance demo_env 86405000 (Some ''csv'') roster))) = 3"
proof -
  have clean: "\<forall>(a, u) \<in> set [(\<lparr>att_id = 2, att_date = 86401005, att_userId = 1\<rparr>, ann_user),
          (\<lparr>att_id = 3, att_date = 86402000, att_userId = 2\<rparr>, bob_user)].
        CHR 0x0A \<notin> set (user_name u) \<and> CHR 0x0A \<notin> set (user_email u)
        \<and> CHR 0x0A \<notin> set (user_phone u) \<and> CHR 0x0A \<notin> set (user_department u)
        \<and> CHR 0x0A \<notin> set (toISODate demo_env (att_date a))
        \<and> CHR 0x0A \<notin> set (toLocaleTime demo_env (att_date a))"
    by (simp add: demo_clean ann_user_def bob_user_def)
  note w = export_csv_lines [OF roster_today list.distinct(2) demo_fields(2)
      demo_clean(1) demo_clean(2) clean]
  show ?thesis
    unfolding w [THEN conjunct2, THEN conjunct1]
    by (simp add: demo_fields demo_midnight csv_header_def ann_user_def bob_user_def show_nat_demo)
qed

text \<open>
  Without the condition on the values the claim fails. A name with a line break stays as
  it is between the quotes, so the export of the one record of that user has three lines of
  text, not two.
\<close>

lemma cyd_today:
  "attendance_findMany cyd_store (setHours0 demo_env 86405000)
   = Inr [(\<lparr>att_id = 1, att_date = 86401005, att_userId = 1\<rparr>, cyd_user)]"
  by (simp add: attendance_findMany_def cyd_store_def demo_midnight cyd_user_def)

theorem export_csv_line_break_counterexample:
  "attendance_findMany cyd_store (setHours0 demo_env 86405000)
     = Inr [(\<lparr>att_id = 1, att_date = 86401005, att_userId = 1\<rparr>, cyd_user)]
   \<and> length (split_lines (csv_text (export_attendance demo_env 86405000 (Some ''csv'') cyd_store)))
       = 3"
  using cyd_today
  by (simp add: export_attendance_def project_all_def project_def json2csv_parse_def
      csv_lines_def csv_header_def csv_row_def demo_fields demo_midnight cyd_user_def
      show_nat_demo)


text \<open>The foreign key holds of the empty store and is kept by both writing handlers.\<close>

lemma fk_ok_empty: "fk_ok empty_store"
  by (simp add: fk_ok_def empty_store_def)

lemma fk_ok_register: "fk_ok s \<Longrightarrow> fk_ok (snd (register E salt t b s))"
  by (auto simp: register_def user_create_def fk_ok_def Let_def split: option.splits)

lemma fk_ok_login: "fk_ok s \<Longrightarrow> fk_ok (snd (login E now ti b s))"
  by (auto simp: login_def attendance_create_def fk_ok_def Let_def split: option.splits)

lemma fk_ok_roster: "fk_ok roster"
  by (simp add: fk_ok_def roster_def ann_user_def bob_user_def)

theorem export_no_data_witness:
  "map att_date (attendances roster) = [5000, 86401005, 86402000]
   \<and> setHours0 demo_env 172800005 = 172800000
   \<and> export_attendance demo_env 172800005 (Some ''csv'') roster = Response 404 (Error NoDataError)"
proof -
  have h: "\<forall>a \<in> set (attendances roster). att_date a < setHours0 demo_env 172800005"
    by (simp add: roster_def demo_midnight)
  from export_no_data [OF h] show ?thesis by (simp add: roster_def demo_midnight)
qed

theorem export_empty_before_format_witness:
  "map att_date (attendances roster) = [5000, 86401005, 86402000]
   \<and> setHours0 demo_env 172800005 = 172800000
   \<and> export_attendance demo_env 172800005 None roster = Response 404 (Error NoDataError)
   \<and> export_attendance demo_env 172800005 (Some ''xml'') roster = Response 404 (Error NoDataError)"
proof -
  have h: "\<forall>a \<in> set (attendances roster). att_date a < setHours0 demo_env 172800005"
    by (simp add: roster_def demo_midnight)
  from export_empty_before_format [OF _ _ h, of None]
    export_empty_before_format [OF _ _ h, of "Some ''xml''"]
  show ?thesis by (simp add: roster_def demo_midnight)
qed

theorem export_unsupported_format_witness:
  "fk_ok roster
   \<and> (\<exists>a \<in> set (attendances roster). setHours0 demo_env 86405000 \<le> att_date a)
   \<and> export_attendance demo_env 86405000 (Some ''xml'') roster
       = Response 400 (Error UnsupportedFormatError)
   \<and> export_attendance demo_env 86405000 None roster
       = Response 400 (Error UnsupportedFormatError)"
proof -
  have h: "\<exists>a \<in> set (attendances roster). setHours0 demo_env 86405000 \<le> att_date a"
    by (simp add: roster_def demo_midnight)
  from export_unsupported_format [OF fk_ok_roster h, of "Some ''xml''"]
    export_unsupported_format [OF fk_ok_roster h, of None] fk_ok_roster h
  show ?thesis by simp
qed

end
